theory Spec2Isabelle
  imports Complex_Main "HOL-Library.Multiset" "HOL-Library.Word"
begin

section \<open>Telemetry frames and the failures of the library calls\<close>

text \<open>
  \<open>app.py\<close> reads one telemetry frame per lap (\<open>lap.get_telemetry()\<close>, line 27;
  \<open>lap.telemetry\<close>, lines 119--121) and uses four of its columns. A frame is a list of
  rows in sample order; a column is \<open>map\<close> of a field over the rows, so all columns of a
  frame have the same length. Floating-point columns are modelled by \<open>real\<close>; the gear
  column holds integers that line 34 converts with \<open>astype(float)\<close>.
\<close>

record telemetry_row =
  X :: real
  Y :: real
  nGear :: int
  Speed :: real

type_synonym telemetry = "telemetry_row list"

text \<open>
  The script defines no exception of its own and has no \<open>raise\<close>. The only failure of the
  calls modelled here is the \<open>ValueError\<close> that numpy, matplotlib and seaborn raise on
  a bad argument.
\<close>

datatype error = ValueError

section \<open>Segment construction (lines 29--33 and 124--125)\<close>

type_synonym point = "real \<times> real"

text \<open>
  \<^verbatim>\<open>points = np.array([x, y]).T.reshape(-1, 1, 2)\<close>:
  the \<open>2 \<times> N\<close> array is transposed to \<open>N\<close> rows \<open>(x\<^sub>i, y\<^sub>i)\<close> and reshaped to \<open>N\<close> blocks
  holding one point each (shape \<open>(N, 1, 2)\<close>). For \<open>N = 0\<close> the result has shape
  \<open>(0, 1, 2)\<close>.
\<close>

definition points_of :: "real list \<Rightarrow> real list \<Rightarrow> point list list" where
  "points_of x y = map (\<lambda>p. [p]) (zip x y)"

text \<open>
  \<^verbatim>\<open>np.concatenate([a, b], axis=1)\<close> joins block \<open>i\<close> of \<open>a\<close> with block \<open>i\<close> of \<open>b\<close>; the
  two arrays must agree on the other axes, otherwise numpy raises \<open>ValueError\<close>.
\<close>

definition concatenate_axis1 :: "'a list list \<Rightarrow> 'a list list \<Rightarrow> error + 'a list list" where
  "concatenate_axis1 a b =
     (if length a = length b then Inr (map2 (@) a b) else Inl ValueError)"

text \<open>
  \<^verbatim>\<open>segments = np.concatenate([points[:-1], points[1:]], axis=1)\<close>.
  A slice never raises: \<open>points[:-1]\<close> drops the last block (\<open>butlast\<close>) and \<open>points[1:]\<close>
  the first (\<open>tl\<close>); both are empty when \<open>points\<close> has fewer than two blocks.
\<close>

definition line_segments :: "real list \<Rightarrow> real list \<Rightarrow> error + point list list" where
  "line_segments x y =
     (let points = points_of x y
      in concatenate_axis1 (butlast points) (tl points))"

section \<open>Normalisation and colormap lookup (matplotlib)\<close>

text \<open>
  \<open>Normalize(vmin, vmax)\<close> applied to an array, with the default \<open>clip=False\<close>:
  \<^verbatim>\<open>
  if vmin == vmax:
      result.fill(0)
  elif vmin > vmax:
      raise ValueError("minvalue must be less than or equal to maxvalue")
  else:
      resdat -= vmin
      resdat /= (vmax - vmin)
  \<close>
\<close>

definition Normalize_call :: "real \<Rightarrow> real \<Rightarrow> real list \<Rightarrow> error + real list" where
  "Normalize_call vmin vmax value =
     (if vmin = vmax then Inr (map (\<lambda>v. 0) value)
      else if vmin > vmax then Inl ValueError
      else Inr (map (\<lambda>v. (v - vmin) / (vmax - vmin)) value))"

text \<open>
  A colormap with \<open>N\<close> entries applied to a float \<open>x\<close>: the entry number is \<open>x * N\<close>
  truncated, where \<open>x = 1\<close> still selects the last entry; values below the range take the
  ``under'' colour, which is entry \<open>0\<close> unless changed, and values above it the ``over''
  colour, entry \<open>N - 1\<close>. The table of colours itself (\<open>Paired\<close>, \<open>plasma\<close>) belongs to
  matplotlib; a colour is identified here by its entry number in that table.
\<close>

definition Colormap_call :: "nat \<Rightarrow> real \<Rightarrow> nat" where
  "Colormap_call N x =
     (let xa = x * real N;
          xa = (if xa = real N then real N - 1 else xa)
      in if xa < 0 then 0
         else if real N \<le> xa then N - 1
         else nat \<lfloor>xa\<rfloor>)"

text \<open>\<open>ScalarMappable.to_rgba\<close>: normalise the array, then look every value up.\<close>

definition to_rgba :: "nat \<Rightarrow> real \<Rightarrow> real \<Rightarrow> real list \<Rightarrow> error + nat list" where
  "to_rgba N vmin vmax A =
     (case Normalize_call vmin vmax A of
        Inl e \<Rightarrow> Inl e
      | Inr xs \<Rightarrow> Inr (map (Colormap_call N) xs))"

text \<open>
  A \<open>LineCollection\<close> with segments, a norm, a colormap and the array given by
  \<open>set_array\<close> draws segment \<open>i\<close> in the mapped colour number \<open>i\<close>, cycling through the
  mapped colours when there are fewer colours than segments. A drawn segment is recorded
  with its two end points, the array value it is coloured by, and the colormap entry.
\<close>

record colored_segment =
  seg :: "point list"
  scalar :: real
  entry :: nat

definition LineCollection_draw ::
  "point list list \<Rightarrow> nat \<Rightarrow> real \<Rightarrow> real \<Rightarrow> real list \<Rightarrow> error + colored_segment list" where
  "LineCollection_draw segments N vmin vmax A =
     (case to_rgba N vmin vmax A of
        Inl e \<Rightarrow> Inl e
      | Inr colors \<Rightarrow>
          Inr (if A = [] then []
               else map (\<lambda>i. \<lparr>seg = segments ! i,
                               scalar = A ! (i mod length A),
                               entry = colors ! (i mod length A)\<rparr>)
                        [0..<length segments]))"

section \<open>The gear figure and the speed graph\<close>

text \<open>
  \<open>create_figure\<close>, lines 29--38: the colormap is \<open>Paired\<close>, of which only the size
  \<open>cmap.N\<close> matters here (a parameter; it is 12 in matplotlib), and the norm is
  \<open>Normalize(1, cmap.N + 1)\<close>.
\<close>

definition create_figure :: "nat \<Rightarrow> telemetry \<Rightarrow> error + colored_segment list" where
  "create_figure cmapN telemetry =
     (let x = map X telemetry;
          y = map Y telemetry
      in case line_segments x y of
           Inl e \<Rightarrow> Inl e
         | Inr segments \<Rightarrow>
             (let gear = map (\<lambda>r. real_of_int (nGear r)) telemetry
              in LineCollection_draw segments cmapN 1 (real cmapN + 1) gear))"

text \<open>
  \<open>Series.min()\<close> and \<open>Series.max()\<close>; on an empty column pandas returns NaN, modelled
  by \<open>None\<close>.
\<close>

fun series_min :: "real list \<Rightarrow> real option" where
  "series_min [] = None"
| "series_min (v # vs) = Some (fold min vs v)"

fun series_max :: "real list \<Rightarrow> real option" where
  "series_max [] = None"
| "series_max (v # vs) = Some (fold max vs v)"

text \<open>
  \<open>create_speed_graph\<close>, lines 119--125 and 140--145: the colormap is \<open>plasma\<close> (size
  \<open>cmapN\<close>, 256 in matplotlib) and the norm is \<open>Normalize(color.min(), color.max())\<close>.
  The result is the drawn segments and the norm's \<open>(vmin, vmax)\<close>. With an empty column
  there is no segment and nothing to map.
\<close>

definition create_speed_graph ::
  "nat \<Rightarrow> telemetry \<Rightarrow> error + (colored_segment list \<times> (real \<times> real) option)" where
  "create_speed_graph cmapN telemetry =
     (let x = map X telemetry;
          y = map Y telemetry;
          color = map Speed telemetry
      in case line_segments x y of
           Inl e \<Rightarrow> Inl e
         | Inr segments \<Rightarrow>
             (case (series_min color, series_max color) of
                (Some vmin, Some vmax) \<Rightarrow>
                  (case LineCollection_draw segments cmapN vmin vmax color of
                     Inl e \<Rightarrow> Inl e
                   | Inr drawn \<Rightarrow> Inr (drawn, Some (vmin, vmax)))
              | _ \<Rightarrow> Inr ([], None)))"

text \<open>
  The value a norm assigns to one array element, and the colormap entries alone of the
  two drawings: the colours of the segments in drawing order, with the norm's limits.
\<close>

definition norm_val :: "real \<Rightarrow> real \<Rightarrow> real \<Rightarrow> real" where
  "norm_val vmin vmax v = (if vmin = vmax then 0 else (v - vmin) / (vmax - vmin))"

definition gear_colors :: "nat \<Rightarrow> telemetry \<Rightarrow> error + (nat list \<times> (real \<times> real))" where
  "gear_colors cmapN telemetry =
     (case create_figure cmapN telemetry of
        Inl e \<Rightarrow> Inl e
      | Inr drawn \<Rightarrow> Inr (map entry drawn, (1, real cmapN + 1)))"

definition speed_colors :: "nat \<Rightarrow> telemetry \<Rightarrow> error + (nat list \<times> (real \<times> real) option)" where
  "speed_colors cmapN telemetry =
     (case create_speed_graph cmapN telemetry of
        Inl e \<Rightarrow> Inl e
      | Inr (drawn, nrm) \<Rightarrow> Inr (map entry drawn, nrm))"

text \<open>The scalar values alone of the segments of the two drawings, in drawing order.\<close>

definition gear_scalars :: "nat \<Rightarrow> telemetry \<Rightarrow> error + real list" where
  "gear_scalars cmapN telemetry =
     (case create_figure cmapN telemetry of
        Inl e \<Rightarrow> Inl e
      | Inr drawn \<Rightarrow> Inr (map scalar drawn))"

definition speed_scalars :: "nat \<Rightarrow> telemetry \<Rightarrow> error + real list" where
  "speed_scalars cmapN telemetry =
     (case create_speed_graph cmapN telemetry of
        Inl e \<Rightarrow> Inl e
      | Inr (drawn, nrm) \<Rightarrow> Inr (map scalar drawn))"

section \<open>The gear colorbar (lines 50--52)\<close>

text \<open>
  \<open>np.arange(start, stop)\<close> with step 1 has \<open>\<lceil>stop - start\<rceil>\<close> elements \<open>start + i\<close>;
  with integer arguments the elements are integers.
\<close>

definition arange :: "real \<Rightarrow> real \<Rightarrow> real list" where
  "arange start stop = map (\<lambda>i. start + real i) [0..<nat \<lceil>stop - start\<rceil>]"

definition arange_int :: "int \<Rightarrow> int \<Rightarrow> int list" where
  "arange_int start stop = map (\<lambda>i. start + int i) [0..<nat (stop - start)]"

text \<open>
  \<^verbatim>\<open>
  cbar = plt.colorbar(mappable=lc_comp, label="Gear", boundaries=np.arange(1, 10))
  cbar.set_ticks(np.arange(1.5, 9.5))
  cbar.set_ticklabels(np.arange(1, 9))
  \<close>
  With \<open>boundaries\<close> given, the colorbar has one region per pair of adjacent boundaries,
  \<open>[b\<^sub>i, b\<^sub>i\<^sub>+\<^sub>1)\<close>, and fills region \<open>i\<close> with the colour that the mappable's norm and
  colormap give to the region's middle value \<open>0.5 * (b[:-1] + b[1:])\<close>.
\<close>

record colorbar =
  cb_boundaries :: "real list"
  cb_swatches :: "nat list"
  cb_ticks :: "real list"
  cb_ticklabels :: "int list"

definition create_figure_colorbar :: "nat \<Rightarrow> error + colorbar" where
  "create_figure_colorbar cmapN =
     (let b = map real_of_int (arange_int 1 10);
          values = map2 (\<lambda>lo hi. (lo + hi) / 2) (butlast b) (tl b)
      in case to_rgba cmapN 1 (real cmapN + 1) values of
           Inl e \<Rightarrow> Inl e
         | Inr colors \<Rightarrow>
             Inr \<lparr>cb_boundaries = b, cb_swatches = colors,
                  cb_ticks = arange (3 / 2) (19 / 2),
                  cb_ticklabels = arange_int 1 9\<rparr>)"

section \<open>The lap-time scatterplot (lines 62--88)\<close>

text \<open>
  A row of \<open>driver_laps\<close>, with the three columns the plot uses. The rows are complete:
  a row with a missing value is outside this model.
\<close>

record lap =
  LapNumber :: int
  LapTime :: real
  Compound :: string

text \<open>The dictionary of lines 62--67.\<close>

definition COMPOUND_COLORS :: "string \<rightharpoonup> string" where
  "COMPOUND_COLORS = map_of
     [(''SOFT'', ''#D32F2F''),
      (''MEDIUM'', ''#FFB300''),
      (''HARD'', ''#757575''),
      (''INTERMEDIATE'', ''#388E3C''),
      (''WET'', ''#1976D2'')]"

text \<open>
  \<open>sns.scatterplot(data, hue="Compound", palette=<dict>)\<close>, the part that decides the
  colours. seaborn takes the levels of the hue column with \<open>categorical_order\<close>, which for
  a column of strings is pandas' \<open>unique()\<close>: the distinct values in order of first
  appearance (a hash table of the values seen so far). For a dictionary palette it then
  checks the keys:
  \<^verbatim>\<open>
  levels = categorical_order(data, order)
  if isinstance(palette, dict):
      missing = set(levels) - set(palette)
      if any(missing):
          err = "The palette dictionary is missing keys: {}"
          raise ValueError(err.format(missing))
      lookup_table = palette
  \<close>
  Python's \<open>any\<close> is true when some element is truthy, and a string is truthy when it is
  not empty. The check runs when the plotter is set up, before anything is drawn.
\<close>

fun unique_acc :: "'a list \<Rightarrow> 'a list \<Rightarrow> 'a list" where
  "unique_acc seen [] = []"
| "unique_acc seen (v # vs) =
     (if v \<in> set seen then unique_acc seen vs else v # unique_acc (v # seen) vs)"

definition categorical_order :: "string list \<Rightarrow> string list" where
  "categorical_order vector = unique_acc [] vector"

definition py_any :: "string list \<Rightarrow> bool" where
  "py_any ks = list_ex (\<lambda>k. k \<noteq> []) ks"

definition categorical_mapping ::
  "string list \<Rightarrow> (string \<rightharpoonup> string) \<Rightarrow> error + (string list \<times> (string \<rightharpoonup> string))" where
  "categorical_mapping data palette =
     (let levels = categorical_order data;
          missing = filter (\<lambda>k. palette k = None) levels
      in if py_any missing then Inl ValueError else Inr (levels, palette))"

text \<open>
  The colour of one hue value, \<open>HueMapping._lookup_single\<close> for a categorical mapping
  (no norm):
  \<^verbatim>\<open>
  try:
      value = self.lookup_table[key]
  except KeyError:
      if self.norm is None:
          return (0, 0, 0, 0)
  \<close>
\<close>

datatype color = Hex string | RGBA real real real real

definition lookup_single :: "(string \<rightharpoonup> string) \<Rightarrow> string \<Rightarrow> color" where
  "lookup_single lookup_table key =
     (case lookup_table key of Some v \<Rightarrow> Hex v | None \<Rightarrow> RGBA 0 0 0 0)"

text \<open>
  The drawn plot: one point per row, in row order, in the colour of its hue value, and
  the legend. seaborn adds one labelled handle per level, in the order of the levels, and
  then calls \<open>ax.legend()\<close>, which collects the handles of the axes with
  \<^verbatim>\<open>
  label = handle.get_label()
  if label and not label.startswith('_'):
  \<close>
  so a level whose name is empty or starts with an underscore has no legend entry; with
  no handle left there is no legend.
\<close>

definition label_shown :: "string \<Rightarrow> bool" where
  "label_shown label = (case label of [] \<Rightarrow> False | c # _ \<Rightarrow> c \<noteq> CHR ''_'')"

record scatter =
  points :: "(lap \<times> color) list"
  legend :: "(string \<times> color) list"

definition scatterplot :: "lap list \<Rightarrow> (string \<rightharpoonup> string) \<Rightarrow> error + scatter" where
  "scatterplot data palette =
     (case categorical_mapping (map Compound data) palette of
        Inl e \<Rightarrow> Inl e
      | Inr (levels, lookup_table) \<Rightarrow>
          Inr \<lparr>points = map (\<lambda>l. (l, lookup_single lookup_table (Compound l))) data,
               legend = map (\<lambda>k. (k, lookup_single lookup_table k))
                            (filter label_shown levels)\<rparr>)"

definition create_scatterplot :: "lap list \<Rightarrow> error + scatter" where
  "create_scatterplot driver_laps = scatterplot driver_laps COMPOUND_COLORS"

text \<open>
  The plot read as one series per legend entry: the category, its colour, and the plotted
  laps of that category in plotting order.
\<close>

record category_series =
  category :: string
  display_color :: color
  series_laps :: "lap list"

definition series_of :: "scatter \<Rightarrow> category_series list" where
  "series_of sc =
     map (\<lambda>(k, c). \<lparr>category = k, display_color = c,
                     series_laps = filter (\<lambda>l. Compound l = k) (map fst (points sc))\<rparr>)
         (legend sc)"

text \<open>The position at which a value first appears in a list.\<close>

definition first_index :: "'a list \<Rightarrow> 'a \<Rightarrow> nat" where
  "first_index vs k = length (takeWhile (\<lambda>v. v \<noteq> k) vs)"

section \<open>The returned data URI (lines 54--60, 99--105 and 157--163)\<close>

text \<open>
  Each of the three functions ends with the same statements: the figure is saved as PNG
  into a buffer, and
  \<^verbatim>\<open>
  image_base64 = base64.b64encode(buf.getvalue()).decode('utf-8')
  return f'data:image/png;base64,{image_base64}'
  \<close>
  The bytes of the buffer are whatever the renderer wrote; \<open>b64encode\<close> is the standard
  encoding of RFC 4648: three bytes become four characters of the alphabet, and a last
  group of one or two bytes is padded with \<open>=\<close>.
\<close>

type_synonym byte = "8 word"

definition b64_alphabet :: string where
  "b64_alphabet = ''ABCDEFGHIJKLMNOPQRSTUVWXYZabcdefghijklmnopqrstuvwxyz0123456789+/''"

definition b64_char :: "nat \<Rightarrow> char" where
  "b64_char i = b64_alphabet ! (i mod 64)"

fun b64encode :: "byte list \<Rightarrow> string" where
  "b64encode [] = []"
| "b64encode [a] =
     (let n = unat a * 65536
      in [b64_char (n div 262144), b64_char (n div 4096), CHR ''='', CHR ''=''])"
| "b64encode [a, b] =
     (let n = unat a * 65536 + unat b * 256
      in [b64_char (n div 262144), b64_char (n div 4096), b64_char (n div 64), CHR ''=''])"
| "b64encode (a # b # c # rest) =
     (let n = unat a * 65536 + unat b * 256 + unat c
      in [b64_char (n div 262144), b64_char (n div 4096), b64_char (n div 64), b64_char n]
         @ b64encode rest)"

definition data_uri :: "byte list \<Rightarrow> string" where
  "data_uri buf = ''data:image/png;base64,'' @ b64encode buf"

definition create_figure_return :: "byte list \<Rightarrow> string" where
  "create_figure_return buf = data_uri buf"

definition create_scatterplot_return :: "byte list \<Rightarrow> string" where
  "create_scatterplot_return buf = data_uri buf"

definition create_speed_graph_return :: "byte list \<Rightarrow> string" where
  "create_speed_graph_return buf = data_uri buf"

text \<open>
  Base64 text: groups of four characters of the alphabet, where the last group may end
  in one or two \<open>=\<close>.
\<close>

definition is_b64_char :: "char \<Rightarrow> bool" where
  "is_b64_char c = (c \<in> set b64_alphabet)"

fun valid_base64 :: "string \<Rightarrow> bool" where
  "valid_base64 [] = True"
| "valid_base64 [a, b, c, d] =
     (is_b64_char a \<and> is_b64_char b \<and>
      (if c = CHR ''='' then d = CHR ''=''
       else is_b64_char c \<and> (d = CHR ''='' \<or> is_b64_char d)))"
| "valid_base64 (a # b # c # d # rest) =
     (is_b64_char a \<and> is_b64_char b \<and> is_b64_char c \<and> is_b64_char d \<and> valid_base64 rest)"
| "valid_base64 _ = False"

section \<open>Sample inputs\<close>

definition sample_telemetry :: telemetry where
  "sample_telemetry =
     [\<lparr>X = 0, Y = 0, nGear = 2, Speed = 180\<rparr>,
      \<lparr>X = 10, Y = 5, nGear = 3, Speed = 200\<rparr>,
      \<lparr>X = 20, Y = 15, nGear = 3, Speed = 230\<rparr>]"

definition stretched_telemetry :: telemetry where
  "stretched_telemetry =
     [\<lparr>X = 0, Y = 0, nGear = 2, Speed = 180\<rparr>,
      \<lparr>X = 10, Y = 5, nGear = 3, Speed = 200\<rparr>,
      \<lparr>X = 20, Y = 15, nGear = 3, Speed = 300\<rparr>]"

definition first_run :: telemetry where
  "first_run =
     [\<lparr>X = 0, Y = 0, nGear = 2, Speed = 180\<rparr>,
      \<lparr>X = 10, Y = 5, nGear = 3, Speed = 230\<rparr>,
      \<lparr>X = 20, Y = 15, nGear = 3, Speed = 200\<rparr>,
      \<lparr>X = 30, Y = 15, nGear = 4, Speed = 190\<rparr>]"

definition second_run :: telemetry where
  "second_run =
     [\<lparr>X = 7, Y = 1, nGear = 2, Speed = 180\<rparr>,
      \<lparr>X = 8, Y = 2, nGear = 3, Speed = 230\<rparr>,
      \<lparr>X = 9, Y = 3, nGear = 3, Speed = 200\<rparr>,
      \<lparr>X = 9, Y = 9, nGear = 5, Speed = 210\<rparr>]"

definition constant_speed_telemetry :: telemetry where
  "constant_speed_telemetry =
     [\<lparr>X = 0, Y = 0, nGear = 5, Speed = 200\<rparr>,
      \<lparr>X = 10, Y = 5, nGear = 5, Speed = 200\<rparr>,
      \<lparr>X = 20, Y = 15, nGear = 6, Speed = 200\<rparr>]"

definition one_sample :: telemetry where
  "one_sample = [\<lparr>X = 4, Y = 9, nGear = 3, Speed = 200\<rparr>]"

definition sample_laps :: "lap list" where
  "sample_laps =
     [\<lparr>LapNumber = 1, LapTime = 901 / 10, Compound = ''SOFT''\<rparr>,
      \<lparr>LapNumber = 2, LapTime = 449 / 5, Compound = ''SOFT''\<rparr>,
      \<lparr>LapNumber = 3, LapTime = 91, Compound = ''MEDIUM''\<rparr>]"

definition supersoft_laps :: "lap list" where
  "supersoft_laps =
     [\<lparr>LapNumber = 1, LapTime = 901 / 10, Compound = ''SOFT''\<rparr>,
      \<lparr>LapNumber = 2, LapTime = 449 / 5, Compound = ''SUPERSOFT''\<rparr>]"

definition unnamed_compound_laps :: "lap list" where
  "unnamed_compound_laps =
     [\<lparr>LapNumber = 1, LapTime = 901 / 10, Compound = ''SOFT''\<rparr>,
      \<lparr>LapNumber = 2, LapTime = 449 / 5, Compound = ''''\<rparr>]"

definition sample_scatter :: scatter where
  "sample_scatter =
     \<lparr>points =
        [(\<lparr>LapNumber = 1, LapTime = 901 / 10, Compound = ''SOFT''\<rparr>, Hex ''#D32F2F''),
         (\<lparr>LapNumber = 2, LapTime = 449 / 5, Compound = ''SOFT''\<rparr>, Hex ''#D32F2F''),
         (\<lparr>LapNumber = 3, LapTime = 91, Compound = ''MEDIUM''\<rparr>, Hex ''#FFB300'')],
      legend = [(''SOFT'', Hex ''#D32F2F''), (''MEDIUM'', Hex ''#FFB300'')]\<rparr>"

section \<open>Facts about segment construction\<close>

lemma length_points_of: "length (points_of (map f t) (map g t)) = length t"
  by (simp add: points_of_def)

lemma nth_points_of:
  "i < length t \<Longrightarrow> points_of (map f t) (map g t) ! i = [(f (t ! i), g (t ! i))]"
  by (simp add: points_of_def)

lemma line_segments_Inr:
  "line_segments (map f t) (map g t) =
     Inr (map2 (@) (butlast (points_of (map f t) (map g t))) (tl (points_of (map f t) (map g t))))"
  by (simp add: line_segments_def concatenate_axis1_def Let_def)

lemma length_line_segments:
  "line_segments (map f t) (map g t) = Inr segs \<Longrightarrow> length segs = length t - 1"
  by (auto simp: line_segments_Inr length_points_of)

lemma nth_line_segments:
  assumes "line_segments (map f t) (map g t) = Inr segs" and "Suc i < length t"
  shows "segs ! i = [(f (t ! i), g (t ! i)), (f (t ! Suc i), g (t ! Suc i))]"
proof -
  let ?ps = "points_of (map f t) (map g t)"
  have len: "length ?ps = length t" by (rule length_points_of)
  have segs: "segs = map2 (@) (butlast ?ps) (tl ?ps)"
    using assms(1) by (simp add: line_segments_Inr)
  have "segs ! i = butlast ?ps ! i @ tl ?ps ! i"
    using assms(2) len by (simp add: segs)
  also have "butlast ?ps ! i = ?ps ! i"
    using assms(2) len by (simp add: nth_butlast)
  also have "tl ?ps ! i = ?ps ! Suc i"
    using assms(2) len by (simp add: nth_tl)
  finally show ?thesis
    using assms(2) by (simp add: nth_points_of)
qed

lemma to_rgba_Inr:
  "vmin \<le> vmax \<Longrightarrow>
   to_rgba N vmin vmax A = Inr (map (\<lambda>v. Colormap_call N (norm_val vmin vmax v)) A)"
  by (simp add: to_rgba_def Normalize_call_def norm_val_def)

lemma LineCollection_draw_Inr:
  assumes "vmin \<le> vmax" and "length segments < length A"
  shows "LineCollection_draw segments N vmin vmax A =
           Inr (map (\<lambda>i. \<lparr>seg = segments ! i, scalar = A ! i,
                            entry = Colormap_call N (norm_val vmin vmax (A ! i))\<rparr>)
                    [0..<length segments])"
proof -
  have ne: "A \<noteq> []" using assms(2) by auto
  have "map (\<lambda>i. \<lparr>seg = segments ! i, scalar = A ! (i mod length A),
                   entry = map (\<lambda>v. Colormap_call N (norm_val vmin vmax v)) A ! (i mod length A)\<rparr>)
            [0..<length segments]
      = map (\<lambda>i. \<lparr>seg = segments ! i, scalar = A ! i,
                   entry = Colormap_call N (norm_val vmin vmax (A ! i))\<rparr>)
            [0..<length segments]"
    using assms(2) by (intro map_cong) auto
  then show ?thesis
    using ne by (simp add: LineCollection_draw_def to_rgba_Inr [OF assms(1)])
qed

lemma fold_min_le: "fold min vs (v::real) \<le> v"
proof (induction vs arbitrary: v)
  case Nil
  show ?case by simp
next
  case (Cons a vs)
  have "fold min vs (min a v) \<le> min a v" by (rule Cons.IH)
  then show ?case by simp
qed

lemma fold_max_ge: "(v::real) \<le> fold max vs v"
proof (induction vs arbitrary: v)
  case Nil
  show ?case by simp
next
  case (Cons a vs)
  have "max a v \<le> fold max vs (max a v)" by (rule Cons.IH)
  then show ?case by simp
qed

lemma series_min_max:
  "t \<noteq> [] \<Longrightarrow> \<exists>lo hi. series_min t = Some lo \<and> series_max t = Some hi \<and> lo \<le> hi"
  by (cases t) (auto intro: order_trans [OF fold_min_le fold_max_ge])

lemma create_figure_Inr:
  assumes "t \<noteq> []"
  shows "create_figure N t =
     Inr (map (\<lambda>i. \<lparr>seg = [(X (t ! i), Y (t ! i)), (X (t ! Suc i), Y (t ! Suc i))],
                      scalar = real_of_int (nGear (t ! i)),
                      entry = Colormap_call N (norm_val 1 (real N + 1) (real_of_int (nGear (t ! i))))\<rparr>)
              [0..<length t - 1])"
proof -
  obtain segs where segs: "line_segments (map X t) (map Y t) = Inr segs"
    by (simp add: line_segments_Inr)
  have len: "length segs = length t - 1"
    using segs by (rule length_line_segments)
  have lt: "length segs < length (map (\<lambda>r. real_of_int (nGear r)) t)"
    using assms len by (cases t) auto
  have "create_figure N t =
          LineCollection_draw segs N 1 (real N + 1) (map (\<lambda>r. real_of_int (nGear r)) t)"
    by (simp add: create_figure_def segs)
  also have "\<dots> = Inr (map (\<lambda>i. \<lparr>seg = segs ! i,
                      scalar = map (\<lambda>r. real_of_int (nGear r)) t ! i,
                      entry = Colormap_call N (norm_val 1 (real N + 1) (map (\<lambda>r. real_of_int (nGear r)) t ! i))\<rparr>)
              [0..<length segs])"
    by (rule LineCollection_draw_Inr [OF _ lt]) simp
  also have "\<dots> = Inr (map (\<lambda>i. \<lparr>seg = [(X (t ! i), Y (t ! i)), (X (t ! Suc i), Y (t ! Suc i))],
                      scalar = real_of_int (nGear (t ! i)),
                      entry = Colormap_call N (norm_val 1 (real N + 1) (real_of_int (nGear (t ! i))))\<rparr>)
              [0..<length t - 1])"
    unfolding len sum.inject
    by (intro map_cong refl) (auto simp: nth_line_segments [OF segs])
  finally show ?thesis .
qed


lemma create_figure_Nil: "create_figure N [] = Inr []"
  by (simp add: create_figure_def line_segments_def points_of_def concatenate_axis1_def
      LineCollection_draw_def to_rgba_def Normalize_call_def)

lemma create_speed_graph_Nil: "create_speed_graph N [] = Inr ([], None)"
  by (simp add: create_speed_graph_def line_segments_def points_of_def concatenate_axis1_def)

lemma create_speed_graph_Inr:
  assumes "t \<noteq> []"
  shows "\<exists>lo hi. series_min (map Speed t) = Some lo \<and> series_max (map Speed t) = Some hi \<and>
     lo \<le> hi \<and>
     create_speed_graph N t =
       Inr (map (\<lambda>i. \<lparr>seg = [(X (t ! i), Y (t ! i)), (X (t ! Suc i), Y (t ! Suc i))],
                      scalar = Speed (t ! i),
                      entry = Colormap_call N (norm_val lo hi (Speed (t ! i)))\<rparr>)
                [0..<length t - 1],
            Some (lo, hi))"
proof -
  obtain lo hi where lohi: "series_min (map Speed t) = Some lo"
      "series_max (map Speed t) = Some hi" "lo \<le> hi"
    using series_min_max [of "map Speed t"] assms by auto
  obtain segs where segs: "line_segments (map X t) (map Y t) = Inr segs"
    by (simp add: line_segments_Inr)
  have len: "length segs = length t - 1"
    using segs by (rule length_line_segments)
  have lt: "length segs < length (map Speed t)"
    using assms len by (cases t) auto
  have draw: "LineCollection_draw segs N lo hi (map Speed t) =
      Inr (map (\<lambda>i. \<lparr>seg = segs ! i, scalar = map Speed t ! i,
                      entry = Colormap_call N (norm_val lo hi (map Speed t ! i))\<rparr>)
              [0..<length segs])"
    by (rule LineCollection_draw_Inr [OF lohi(3) lt])
  have same: "map (\<lambda>i. \<lparr>seg = segs ! i, scalar = map Speed t ! i,
                      entry = Colormap_call N (norm_val lo hi (map Speed t ! i))\<rparr>)
              [0..<length segs]
      = map (\<lambda>i. \<lparr>seg = [(X (t ! i), Y (t ! i)), (X (t ! Suc i), Y (t ! Suc i))],
                      scalar = Speed (t ! i),
                      entry = Colormap_call N (norm_val lo hi (Speed (t ! i)))\<rparr>)
                [0..<length t - 1]"
    unfolding len
    by (intro map_cong refl) (auto simp: nth_line_segments [OF segs])
  have "create_speed_graph N t =
       Inr (map (\<lambda>i. \<lparr>seg = [(X (t ! i), Y (t ! i)), (X (t ! Suc i), Y (t ! Suc i))],
                      scalar = Speed (t ! i),
                      entry = Colormap_call N (norm_val lo hi (Speed (t ! i)))\<rparr>)
                [0..<length t - 1],
            Some (lo, hi))"
    by (simp add: create_speed_graph_def segs lohi(1,2) draw same)
  with lohi show ?thesis by blast
qed

section \<open>Claims about segment construction\<close>

text \<open>
  Claim C1. For every frame of \<open>N \<ge> 2\<close> samples, both drawings (the gear figure and the
  speed graph) return exactly \<open>N - 1\<close> segments in input order; segment \<open>i\<close> joins sample
  \<open>i\<close> to sample \<open>i + 1\<close>, and the value it is coloured by is the channel value of sample
  \<open>i\<close>, the leading end point.
\<close>

theorem segments_connect_adjacent_samples:
  assumes "2 \<le> length t"
  shows "\<exists>gs ss nrm.
     create_figure N t = Inr gs \<and> create_speed_graph M t = Inr (ss, nrm) \<and>
     length gs = length t - 1 \<and> length ss = length t - 1 \<and>
     (\<forall>i<length t - 1.
        seg (gs ! i) = [(X (t ! i), Y (t ! i)), (X (t ! Suc i), Y (t ! Suc i))] \<and>
        scalar (gs ! i) = real_of_int (nGear (t ! i)) \<and>
        seg (ss ! i) = [(X (t ! i), Y (t ! i)), (X (t ! Suc i), Y (t ! Suc i))] \<and>
        scalar (ss ! i) = Speed (t ! i))"
proof -
  have ne: "t \<noteq> []" using assms by auto
  obtain lo hi where sp: "create_speed_graph M t =
       Inr (map (\<lambda>i. \<lparr>seg = [(X (t ! i), Y (t ! i)), (X (t ! Suc i), Y (t ! Suc i))],
                      scalar = Speed (t ! i),
                      entry = Colormap_call M (norm_val lo hi (Speed (t ! i)))\<rparr>)
                [0..<length t - 1],
            Some (lo, hi))"
    using create_speed_graph_Inr [OF ne, of M] by blast
  show ?thesis
    unfolding create_figure_Inr [OF ne] sp by simp
qed

theorem segments_connect_adjacent_samples_witness:
  "2 \<le> length sample_telemetry \<and>
   (\<exists>gs ss nrm.
     create_figure 12 sample_telemetry = Inr gs \<and>
     create_speed_graph 256 sample_telemetry = Inr (ss, nrm) \<and>
     length gs = length sample_telemetry - 1 \<and> length ss = length sample_telemetry - 1 \<and>
     (\<forall>i<length sample_telemetry - 1.
        seg (gs ! i) = [(X (sample_telemetry ! i), Y (sample_telemetry ! i)),
                        (X (sample_telemetry ! Suc i), Y (sample_telemetry ! Suc i))] \<and>
        scalar (gs ! i) = real_of_int (nGear (sample_telemetry ! i)) \<and>
        seg (ss ! i) = [(X (sample_telemetry ! i), Y (sample_telemetry ! i)),
                        (X (sample_telemetry ! Suc i), Y (sample_telemetry ! Suc i))] \<and>
        scalar (ss ! i) = Speed (sample_telemetry ! i)))"
proof -
  have h: "2 \<le> length sample_telemetry"
    by (simp add: sample_telemetry_def)
  from h segments_connect_adjacent_samples [OF h, of 12 256] show ?thesis
    by (rule conjI)
qed

lemma short_cases: "length t < 2 \<Longrightarrow> t = [] \<or> (\<exists>r. t = [r])"
  by (cases t) (auto simp: length_Suc_conv)

text \<open>
  Claim C2 says that a frame of fewer than two samples makes segment construction fail
  with \<open>InsufficientDataError\<close>. The script has no such error and no length check:
  the slices of a one-sample frame are empty and the concatenation returns the empty
  array of segments, so both drawings return without a segment. The frame \<open>one_sample\<close>
  shows it.
\<close>

theorem one_sample_builds_no_segment:
  "line_segments (map X one_sample) (map Y one_sample) = Inr [] \<and>
   create_figure 12 one_sample = Inr [] \<and>
   create_speed_graph 256 one_sample = Inr ([], Some (200, 200))"
  by (simp add: one_sample_def line_segments_def points_of_def concatenate_axis1_def
      create_figure_def create_speed_graph_def LineCollection_draw_def to_rgba_def
      Normalize_call_def)

text \<open>
  Claim C2, amended. For every frame of fewer than two samples (none or one), segment
  construction raises no error and returns the empty sequence of segments; both drawings
  return with no segment drawn.
\<close>

theorem short_input_gives_no_segments:
  assumes "length t < 2"
  shows "line_segments (map X t) (map Y t) = Inr [] \<and>
         create_figure N t = Inr [] \<and>
         (\<exists>nrm. create_speed_graph M t = Inr ([], nrm))"
proof -
  from assms consider "t = []" | r where "t = [r]"
    using short_cases by blast
  then show ?thesis
  proof cases
    case 1
    then show ?thesis
      by (simp add: create_figure_Nil create_speed_graph_Nil line_segments_def
          concatenate_axis1_def points_of_def)
  next
    case 2
    have ne: "t \<noteq> []" using 2 by simp
    have a: "line_segments (map X t) (map Y t) = Inr []"
      using 2 by (simp add: line_segments_def concatenate_axis1_def points_of_def)
    have b: "create_figure N t = Inr []"
      using create_figure_Inr [OF ne, of N] unfolding 2 by simp
    have c: "\<exists>nrm. create_speed_graph M t = Inr ([], nrm)"
      using create_speed_graph_Inr [OF ne, of M] unfolding 2 by auto
    from a b c show ?thesis by blast
  qed
qed

theorem short_input_gives_no_segments_witness:
  "length one_sample < 2 \<and>
   line_segments (map X one_sample) (map Y one_sample) = Inr [] \<and>
   create_figure 12 one_sample = Inr [] \<and>
   (\<exists>nrm. create_speed_graph 256 one_sample = Inr ([], nrm))"
proof -
  have h: "length one_sample < 2" by (simp add: one_sample_def)
  from h short_input_gives_no_segments [OF h, of 12 256] show ?thesis
    by (rule conjI)
qed

section \<open>Claims about the colour mapping\<close>

lemma fold_min_const: "\<forall>x\<in>set vs. x = v \<Longrightarrow> fold min vs (v::real) = v"
  by (induction vs) auto

lemma fold_max_const: "\<forall>x\<in>set vs. x = v \<Longrightarrow> fold max vs (v::real) = v"
  by (induction vs) auto

lemma Colormap_call_0: "Colormap_call N 0 = 0"
  by (simp add: Colormap_call_def)

text \<open>
  Claim C3 says that a constant channel is mapped to the middle of the palette. With
  \<open>vmin = vmax\<close> the norm returns 0 for every value, which selects entry 0 of the
  colormap, the first colour; the middle of the 256 entries of \<open>plasma\<close> is entry 128.
\<close>

theorem constant_speed_is_not_midpoint:
  "speed_colors 256 constant_speed_telemetry = Inr ([0, 0], Some (200, 200)) \<and>
   Colormap_call 256 (1 / 2) = 128 \<and>
   speed_colors 256 constant_speed_telemetry \<noteq>
     Inr ([Colormap_call 256 (1 / 2), Colormap_call 256 (1 / 2)], Some (200, 200))"
  by (simp add: speed_colors_def constant_speed_telemetry_def create_speed_graph_def
      line_segments_def points_of_def concatenate_axis1_def LineCollection_draw_def
      to_rgba_def Normalize_call_def Colormap_call_def)

text \<open>
  Claim C3, amended. In the continuous mode of the speed graph, for every frame whose
  speed values are all equal, the call returns without an error (the norm never divides
  by \<open>vmax - vmin = 0\<close>), the norm's limits are both that value, and every segment
  receives the same colour: entry 0 of the colormap, the first colour of the palette
  and not its middle.
\<close>

theorem constant_channel_maps_to_first_entry:
  assumes "t \<noteq> []" and "\<forall>r\<in>set t. Speed r = s"
  shows "\<exists>cs. create_speed_graph N t = Inr (cs, Some (s, s)) \<and>
              length cs = length t - 1 \<and>
              (\<forall>c\<in>set cs. entry c = 0 \<and> scalar c = s)"
proof -
  obtain r rs where t: "t = r # rs" using assms(1) by (cases t) auto
  have all: "\<forall>x\<in>set (map Speed rs). x = Speed r"
    using assms(2) t by auto
  have lo: "series_min (map Speed t) = Some s"
    using fold_min_const [OF all] assms(2) t by simp
  have hi: "series_max (map Speed t) = Some s"
    using fold_max_const [OF all] assms(2) t by simp
  have nth: "\<And>i. i < length t - 1 \<Longrightarrow> Speed (t ! i) = s"
    using assms(2) by (simp add: less_diff_conv)
  from create_speed_graph_Inr [OF assms(1), of N] lo hi
  have "create_speed_graph N t =
       Inr (map (\<lambda>i. \<lparr>seg = [(X (t ! i), Y (t ! i)), (X (t ! Suc i), Y (t ! Suc i))],
                      scalar = Speed (t ! i),
                      entry = Colormap_call N (norm_val s s (Speed (t ! i)))\<rparr>)
                [0..<length t - 1],
            Some (s, s))"
    by auto
  then show ?thesis
    by (auto simp: norm_val_def Colormap_call_0 nth)
qed

theorem constant_channel_maps_to_first_entry_witness:
  "constant_speed_telemetry \<noteq> [] \<and>
   (\<exists>cs. create_speed_graph 256 constant_speed_telemetry = Inr (cs, Some (200, 200)) \<and>
         length cs = length constant_speed_telemetry - 1 \<and>
         (\<forall>c\<in>set cs. entry c = 0 \<and> scalar c = 200))"
proof -
  have h1: "constant_speed_telemetry \<noteq> []"
    by (simp add: constant_speed_telemetry_def)
  have h2: "\<forall>r\<in>set constant_speed_telemetry. Speed r = 200"
    by (simp add: constant_speed_telemetry_def)
  from h1 constant_channel_maps_to_first_entry [OF h1 h2, of 256] show ?thesis
    by (rule conjI)
qed

lemma Colormap_call_gear:
  assumes "real_of_int L \<le> v" and "v < real_of_int L + 1" and "1 \<le> L" and "L \<le> int N"
  shows "Colormap_call N (norm_val 1 (real N + 1) v) = nat (L - 1)"
proof -
  have N: "0 < N" using assms(3,4) by linarith
  have xa: "norm_val 1 (real N + 1) v * real N = v - 1"
    using N by (simp add: norm_val_def)
  have fl: "\<lfloor>v\<rfloor> = L"
    using assms(1,2) by (intro floor_unique) auto
  have lt: "v - 1 < real N"
    using assms(2,4) by linarith
  have ge: "0 \<le> v - 1"
    using assms(1,3) by linarith
  show ?thesis
    unfolding Colormap_call_def xa Let_def using lt ge by (simp add: fl)
qed

lemma colorbar_layout:
  assumes "8 \<le> N"
  shows "create_figure_colorbar N =
     Inr \<lparr>cb_boundaries = [1, 2, 3, 4, 5, 6, 7, 8, 9],
          cb_swatches = [0, 1, 2, 3, 4, 5, 6, 7],
          cb_ticks = [3 / 2, 5 / 2, 7 / 2, 9 / 2, 11 / 2, 13 / 2, 15 / 2, 17 / 2],
          cb_ticklabels = [1, 2, 3, 4, 5, 6, 7, 8]\<rparr>"
proof -
  have b: "arange_int 1 10 = [1, 2, 3, 4, 5, 6, 7, 8, 9]" by code_simp
  have l: "arange_int 1 9 = [1, 2, 3, 4, 5, 6, 7, 8]" by code_simp
  have k: "arange (3 / 2) (19 / 2) = [3 / 2, 5 / 2, 7 / 2, 9 / 2, 11 / 2, 13 / 2, 15 / 2, 17 / 2]"
    by (simp add: arange_def upt_rec)
  have c: "\<And>L. 1 \<le> L \<Longrightarrow> L \<le> 8 \<Longrightarrow>
      Colormap_call N (norm_val 1 (real N + 1) (real_of_int L + 1 / 2)) = nat (L - 1)"
    using assms by (intro Colormap_call_gear) auto
  have c1: "Colormap_call N (norm_val 1 (real N + 1) (3 / 2)) = 0" using c [of 1] by simp
  have c2: "Colormap_call N (norm_val 1 (real N + 1) (5 / 2)) = 1" using c [of 2] by simp
  have c3: "Colormap_call N (norm_val 1 (real N + 1) (7 / 2)) = 2" using c [of 3] by simp
  have c4: "Colormap_call N (norm_val 1 (real N + 1) (9 / 2)) = 3" using c [of 4] by simp
  have c5: "Colormap_call N (norm_val 1 (real N + 1) (11 / 2)) = 4" using c [of 5] by simp
  have c6: "Colormap_call N (norm_val 1 (real N + 1) (13 / 2)) = 5" using c [of 6] by simp
  have c7: "Colormap_call N (norm_val 1 (real N + 1) (15 / 2)) = 6" using c [of 7] by simp
  have c8: "Colormap_call N (norm_val 1 (real N + 1) (17 / 2)) = 7" using c [of 8] by simp
  show ?thesis
    by (simp add: create_figure_colorbar_def b l k to_rgba_Inr c1 c2 c3 c4 c5 c6 c7 c8)
qed

lemma create_figure_entry:
  assumes "create_figure N t = Inr cs" and "c \<in> set cs"
  shows "entry c = Colormap_call N (norm_val 1 (real N + 1) (scalar c))"
proof (cases "t = []")
  case True
  then show ?thesis using assms by (simp add: create_figure_Nil)
next
  case False
  from create_figure_Inr [OF False, of N] assms show ?thesis by auto
qed

lemma level_cases:
  "1 \<le> L \<Longrightarrow> L \<le> 8 \<Longrightarrow>
   L = 1 \<or> L = 2 \<or> L = 3 \<or> L = 4 \<or> L = 5 \<or> L = 6 \<or> L = 7 \<or> L = (8::int)"
  by arith

text \<open>
  Claim C4. In the discrete mode of the gear figure the colorbar has the regions
  \<open>[level, level + 1)\<close> for the levels 1 to 8. A segment whose gear value lies exactly on
  a boundary, the integer \<open>L\<close>, is drawn in the colour of the region that starts at \<open>L\<close>
  (the region labelled \<open>L\<close>, the nearest level not above the value), as is every value of
  \<open>[L, L + 1)\<close>, and not in the colour of the region that ends at \<open>L\<close>. The value 3.0
  takes the colour of region 3.
\<close>

theorem gear_on_boundary_takes_its_own_bucket:
  assumes "8 \<le> N" and "create_figure N t = Inr cs" and "c \<in> set cs"
    and "scalar c = real_of_int L" and "1 \<le> L" and "L \<le> 8"
  shows "\<exists>cb. create_figure_colorbar N = Inr cb \<and>
           cb_boundaries cb ! nat (L - 1) = real_of_int L \<and>
           cb_boundaries cb ! nat L = real_of_int L + 1 \<and>
           cb_ticklabels cb ! nat (L - 1) = L \<and>
           entry c = cb_swatches cb ! nat (L - 1) \<and>
           entry c = nat (L - 1) \<and>
           (2 \<le> L \<longrightarrow> entry c \<noteq> cb_swatches cb ! nat (L - 2)) \<and>
           (\<forall>v. real_of_int L \<le> v \<and> v < real_of_int L + 1 \<longrightarrow>
                Colormap_call N (norm_val 1 (real N + 1) v) = entry c)"
proof -
  have LN: "L \<le> int N" using assms(1,6) by linarith
  have e: "entry c = nat (L - 1)"
    unfolding create_figure_entry [OF assms(2,3)] assms(4)
    using assms(5) LN by (intro Colormap_call_gear) auto
  have bucket: "\<forall>v. real_of_int L \<le> v \<and> v < real_of_int L + 1 \<longrightarrow>
                Colormap_call N (norm_val 1 (real N + 1) v) = entry c"
    unfolding e using assms(5) LN by (auto intro: Colormap_call_gear)
  from level_cases [OF assms(5,6)] e bucket show ?thesis
    unfolding colorbar_layout [OF assms(1)] by (elim disjE) simp_all
qed

theorem gear_on_boundary_takes_its_own_bucket_witness:
  "(8::nat) \<le> 12 \<and>
   create_figure 12 sample_telemetry =
     Inr [\<lparr>seg = [(0, 0), (10, 5)], scalar = 2, entry = 1\<rparr>,
          \<lparr>seg = [(10, 5), (20, 15)], scalar = 3, entry = 2\<rparr>] \<and>
   (\<exists>cb. create_figure_colorbar 12 = Inr cb \<and>
           cb_boundaries cb ! 2 = 3 \<and>
           cb_boundaries cb ! 3 = 4 \<and>
           cb_ticklabels cb ! 2 = 3 \<and>
           cb_swatches cb ! 2 = 2 \<and>
           cb_swatches cb ! 1 \<noteq> 2)"
proof -
  let ?c = "\<lparr>seg = [(10, 5), (20, 15)], scalar = 3, entry = 2\<rparr>"
  let ?cs = "[\<lparr>seg = [(0, 0), (10, 5)], scalar = 2, entry = 1\<rparr>, ?c]"
  have h1: "(8::nat) \<le> 12" by simp
  have h2: "create_figure 12 sample_telemetry = Inr ?cs"
    by (simp add: sample_telemetry_def create_figure_def line_segments_def points_of_def
        concatenate_axis1_def LineCollection_draw_def to_rgba_def Normalize_call_def
        Colormap_call_def)
  have h3: "?c \<in> set ?cs" by simp
  have h4: "scalar ?c = real_of_int 3" by simp
  from gear_on_boundary_takes_its_own_bucket [OF h1 h2 h3 h4]
  have "\<exists>cb. create_figure_colorbar 12 = Inr cb \<and>
           cb_boundaries cb ! 2 = 3 \<and>
           cb_boundaries cb ! 3 = 4 \<and>
           cb_ticklabels cb ! 2 = 3 \<and>
           cb_swatches cb ! 2 = 2 \<and>
           cb_swatches cb ! 1 \<noteq> 2"
    by auto
  with h1 h2 show ?thesis by blast
qed

text \<open>
  Claim C5. The legend of the gear figure, the only discrete one, has its tick of each
  region at the region's level plus 0.5, labelled with the integer level: the ticks are
  1.5 to 8.5, the labels 1 to 8, and the labels are the lower boundaries of the regions.
\<close>

theorem colorbar_ticks_centered:
  "\<exists>cb. create_figure_colorbar N = Inr cb \<and>
        cb_boundaries cb = [1, 2, 3, 4, 5, 6, 7, 8, 9] \<and>
        cb_ticklabels cb = [1, 2, 3, 4, 5, 6, 7, 8] \<and>
        cb_ticks cb = [3 / 2, 5 / 2, 7 / 2, 9 / 2, 11 / 2, 13 / 2, 15 / 2, 17 / 2] \<and>
        cb_ticks cb = map (\<lambda>l. real_of_int l + 1 / 2) (cb_ticklabels cb) \<and>
        map real_of_int (cb_ticklabels cb) = butlast (cb_boundaries cb)"
proof -
  have b: "arange_int 1 10 = [1, 2, 3, 4, 5, 6, 7, 8, 9]" by code_simp
  have l: "arange_int 1 9 = [1, 2, 3, 4, 5, 6, 7, 8]" by code_simp
  have k: "arange (3 / 2) (19 / 2) = [3 / 2, 5 / 2, 7 / 2, 9 / 2, 11 / 2, 13 / 2, 15 / 2, 17 / 2]"
    by (simp add: arange_def upt_rec)
  show ?thesis
    by (simp add: create_figure_colorbar_def b l k to_rgba_Inr)
qed

theorem colorbar_ticks_centered_witness:
  "\<exists>cb. create_figure_colorbar 12 = Inr cb \<and>
        cb_boundaries cb = [1, 2, 3, 4, 5, 6, 7, 8, 9] \<and>
        cb_ticklabels cb = [1, 2, 3, 4, 5, 6, 7, 8] \<and>
        cb_ticks cb = [3 / 2, 5 / 2, 7 / 2, 9 / 2, 11 / 2, 13 / 2, 15 / 2, 17 / 2] \<and>
        cb_ticks cb = map (\<lambda>l. real_of_int l + 1 / 2) (cb_ticklabels cb) \<and>
        map real_of_int (cb_ticklabels cb) = butlast (cb_boundaries cb)"
  by (rule colorbar_ticks_centered)

lemma gear_colors_eq:
  "gear_colors N t =
     Inr (map (\<lambda>g. Colormap_call N (norm_val 1 (real N + 1) (real_of_int g)))
              (butlast (map nGear t)),
          (1, real N + 1))"
proof (cases "t = []")
  case True
  then show ?thesis by (simp add: gear_colors_def create_figure_Nil)
next
  case False
  have "map (\<lambda>i. Colormap_call N (norm_val 1 (real N + 1) (real_of_int (nGear (t ! i)))))
            [0..<length t - 1]
      = map (\<lambda>g. Colormap_call N (norm_val 1 (real N + 1) (real_of_int g)))
            (butlast (map nGear t))"
    by (rule nth_equalityI) (auto simp: nth_butlast)
  then show ?thesis
    by (simp add: gear_colors_def create_figure_Inr [OF False] comp_def)
qed

lemma speed_colors_eq:
  "speed_colors N t =
     (case (series_min (map Speed t), series_max (map Speed t)) of
        (Some lo, Some hi) \<Rightarrow>
          Inr (map (\<lambda>v. Colormap_call N (norm_val lo hi v)) (butlast (map Speed t)),
               Some (lo, hi))
      | _ \<Rightarrow> Inr ([], None))"
proof (cases "t = []")
  case True
  then show ?thesis by (simp add: speed_colors_def create_speed_graph_Nil)
next
  case False
  from create_speed_graph_Inr [OF False, of N]
  obtain lo hi where lohi: "series_min (map Speed t) = Some lo"
      "series_max (map Speed t) = Some hi"
    and sp: "create_speed_graph N t =
       Inr (map (\<lambda>i. \<lparr>seg = [(X (t ! i), Y (t ! i)), (X (t ! Suc i), Y (t ! Suc i))],
                      scalar = Speed (t ! i),
                      entry = Colormap_call N (norm_val lo hi (Speed (t ! i)))\<rparr>)
                [0..<length t - 1],
            Some (lo, hi))"
    by blast
  have "map (\<lambda>i. Colormap_call N (norm_val lo hi (Speed (t ! i)))) [0..<length t - 1]
      = map (\<lambda>v. Colormap_call N (norm_val lo hi v)) (butlast (map Speed t))"
    by (rule nth_equalityI) (auto simp: nth_butlast)
  then show ?thesis
    by (simp add: speed_colors_def sp lohi comp_def)
qed

lemma gear_scalars_eq:
  "gear_scalars N t = Inr (map real_of_int (butlast (map nGear t)))"
proof (cases "t = []")
  case True
  then show ?thesis by (simp add: gear_scalars_def create_figure_Nil)
next
  case False
  have "map (\<lambda>i. real_of_int (nGear (t ! i))) [0..<length t - 1]
      = map real_of_int (butlast (map nGear t))"
    by (rule nth_equalityI) (auto simp: nth_butlast)
  then show ?thesis
    by (simp add: gear_scalars_def create_figure_Inr [OF False] comp_def)
qed

lemma speed_scalars_eq: "speed_scalars N t = Inr (butlast (map Speed t))"
proof (cases "t = []")
  case True
  then show ?thesis by (simp add: speed_scalars_def create_speed_graph_Nil)
next
  case False
  from create_speed_graph_Inr [OF False, of N]
  obtain lo hi where sp: "create_speed_graph N t =
       Inr (map (\<lambda>i. \<lparr>seg = [(X (t ! i), Y (t ! i)), (X (t ! Suc i), Y (t ! Suc i))],
                      scalar = Speed (t ! i),
                      entry = Colormap_call N (norm_val lo hi (Speed (t ! i)))\<rparr>)
                [0..<length t - 1],
            Some (lo, hi))"
    by blast
  have "map (\<lambda>i. Speed (t ! i)) [0..<length t - 1] = butlast (map Speed t)"
    by (rule nth_equalityI) (auto simp: nth_butlast)
  then show ?thesis
    by (simp add: speed_scalars_def sp comp_def)
qed

lemma gear_colors_of_scalars:
  assumes "gear_scalars N t = Inr vs"
  shows "gear_colors N t =
           Inr (map (\<lambda>v. Colormap_call N (norm_val 1 (real N + 1) v)) vs, (1, real N + 1))"
proof -
  have "vs = map real_of_int (butlast (map nGear t))"
    using assms by (simp add: gear_scalars_eq)
  then show ?thesis
    by (simp add: gear_colors_eq comp_def)
qed

lemma speed_colors_of_scalars:
  assumes "speed_scalars N t = Inr vs"
  shows "speed_colors N t =
     (case (series_min (map Speed t), series_max (map Speed t)) of
        (Some lo, Some hi) \<Rightarrow>
          Inr (map (\<lambda>v. Colormap_call N (norm_val lo hi v)) vs, Some (lo, hi))
      | _ \<Rightarrow> Inr ([], None))"
proof -
  have "vs = butlast (map Speed t)"
    using assms by (simp add: speed_scalars_eq)
  then show ?thesis
    by (simp only: speed_colors_eq)
qed

text \<open>
  Claim C8 says that equal scalar values of the segments and an equal palette give equal
  colours and norm limits. In the speed graph the norm is taken from the whole column,
  \<open>Normalize(color.min(), color.max())\<close>, and the last sample of the column colours no
  segment. The frames \<open>sample_telemetry\<close> and \<open>stretched_telemetry\<close> differ in the speed
  of the last sample only: their segments carry the same scalar values, and they receive
  different colours and different norm limits.
\<close>

theorem last_sample_changes_speed_colors:
  "speed_scalars 256 sample_telemetry = Inr [180, 200] \<and>
   speed_scalars 256 stretched_telemetry = Inr [180, 200] \<and>
   speed_colors 256 sample_telemetry = Inr ([0, 102], Some (180, 230)) \<and>
   speed_colors 256 stretched_telemetry = Inr ([0, 42], Some (180, 300)) \<and>
   speed_colors 256 sample_telemetry \<noteq> speed_colors 256 stretched_telemetry"
  by (simp add: speed_scalars_def speed_colors_def sample_telemetry_def
      stretched_telemetry_def create_speed_graph_def line_segments_def points_of_def
      concatenate_axis1_def LineCollection_draw_def to_rgba_def Normalize_call_def
      Colormap_call_def)

text \<open>
  Claim C8, amended. The colours are a function of the scalar values of the segments, of
  the palette and, in the continuous mode, of the range of the whole channel. In the gear
  figure two frames whose segments carry the same scalar values receive, with the same
  colormap, the same sequence of colours and the same norm limits. In the speed graph
  they do when in addition the minimum and the maximum of the whole speed column, last
  sample included, are the same. Nothing else of the frames matters: not the positions
  and not the last sample's gear.
\<close>

theorem colors_depend_on_segment_scalars_and_range:
  "(gear_scalars N t1 = gear_scalars N t2 \<longrightarrow> gear_colors N t1 = gear_colors N t2) \<and>
   (speed_scalars M t1 = speed_scalars M t2 \<and>
    series_min (map Speed t1) = series_min (map Speed t2) \<and>
    series_max (map Speed t1) = series_max (map Speed t2) \<longrightarrow>
      speed_colors M t1 = speed_colors M t2)"
proof (intro conjI impI)
  assume h: "gear_scalars N t1 = gear_scalars N t2"
  obtain vs where vs: "gear_scalars N t2 = Inr vs"
    by (simp add: gear_scalars_eq)
  show "gear_colors N t1 = gear_colors N t2"
    using gear_colors_of_scalars [of N t1 vs] gear_colors_of_scalars [of N t2 vs] h vs
    by simp
next
  assume h: "speed_scalars M t1 = speed_scalars M t2 \<and>
    series_min (map Speed t1) = series_min (map Speed t2) \<and>
    series_max (map Speed t1) = series_max (map Speed t2)"
  obtain vs where vs: "speed_scalars M t2 = Inr vs"
    by (simp add: speed_scalars_eq)
  show "speed_colors M t1 = speed_colors M t2"
    using speed_colors_of_scalars [of M t1 vs] speed_colors_of_scalars [of M t2 vs] h vs
    by simp
qed

theorem colors_depend_on_segment_scalars_and_range_witness:
  "first_run \<noteq> second_run \<and>
   map nGear first_run \<noteq> map nGear second_run \<and>
   map Speed first_run \<noteq> map Speed second_run \<and>
   gear_scalars 12 first_run = Inr [2, 3, 3] \<and>
   gear_scalars 12 second_run = Inr [2, 3, 3] \<and>
   speed_scalars 256 first_run = Inr [180, 230, 200] \<and>
   speed_scalars 256 second_run = Inr [180, 230, 200] \<and>
   series_min (map Speed first_run) = Some 180 \<and>
   series_min (map Speed second_run) = Some 180 \<and>
   series_max (map Speed first_run) = Some 230 \<and>
   series_max (map Speed second_run) = Some 230 \<and>
   gear_colors 12 first_run = gear_colors 12 second_run \<and>
   speed_colors 256 first_run = speed_colors 256 second_run"
proof -
  have d: "first_run \<noteq> second_run \<and>
      map nGear first_run \<noteq> map nGear second_run \<and>
      map Speed first_run \<noteq> map Speed second_run"
    by (simp add: first_run_def second_run_def)
  have g1: "gear_scalars 12 first_run = Inr [2, 3, 3]"
    by (simp add: gear_scalars_eq first_run_def)
  have g2: "gear_scalars 12 second_run = Inr [2, 3, 3]"
    by (simp add: gear_scalars_eq second_run_def)
  have s1: "speed_scalars 256 first_run = Inr [180, 230, 200]"
    by (simp add: speed_scalars_eq first_run_def)
  have s2: "speed_scalars 256 second_run = Inr [180, 230, 200]"
    by (simp add: speed_scalars_eq second_run_def)
  have lo1: "series_min (map Speed first_run) = Some 180"
    by (simp add: first_run_def)
  have lo2: "series_min (map Speed second_run) = Some 180"
    by (simp add: second_run_def)
  have hi1: "series_max (map Speed first_run) = Some 230"
    by (simp add: first_run_def)
  have hi2: "series_max (map Speed second_run) = Some 230"
    by (simp add: second_run_def)
  from colors_depend_on_segment_scalars_and_range [of 12 first_run second_run 256]
  have "gear_colors 12 first_run = gear_colors 12 second_run \<and>
        speed_colors 256 first_run = speed_colors 256 second_run"
    using g1 g2 s1 s2 lo1 lo2 hi1 hi2 by simp
  with d g1 g2 s1 s2 lo1 lo2 hi1 hi2 show ?thesis by simp
qed

section \<open>Claims about the lap-time scatterplot\<close>

lemma set_unique_acc: "set (unique_acc seen vs) = set vs - set seen"
  by (induction vs arbitrary: seen) auto

lemma distinct_unique_acc: "distinct (unique_acc seen vs)"
  by (induction vs arbitrary: seen) (auto simp: set_unique_acc)

lemma first_index_Cons:
  "first_index (v # vs) k = (if k = v then 0 else Suc (first_index vs k))"
  by (auto simp: first_index_def)

lemma sorted_unique_acc:
  "sorted_wrt (<) (map (first_index vs) (unique_acc seen vs))"
proof (induction vs arbitrary: seen)
  case Nil
  show ?case by simp
next
  case (Cons v vs)
  have shift: "map (first_index (v # vs)) (unique_acc seen' vs)
             = map (\<lambda>k. Suc (first_index vs k)) (unique_acc seen' vs)"
    if "v \<in> set seen'" for seen'
    using that by (intro map_cong refl) (auto simp: set_unique_acc first_index_Cons)
  have mono: "sorted_wrt (<) (map (\<lambda>k. Suc (first_index vs k)) (unique_acc seen' vs))"
    for seen'
    using Cons.IH [of seen'] by (simp add: sorted_wrt_map)
  have tail: "sorted_wrt (<) (map (first_index (v # vs)) (unique_acc seen' vs))"
    if "v \<in> set seen'" for seen'
    unfolding shift [OF that] by (rule mono)
  show ?case
  proof (cases "v \<in> set seen")
    case True
    have "unique_acc seen (v # vs) = unique_acc seen vs"
      using True by simp
    then show ?thesis
      using tail [OF True] by (simp only:)
  next
    case False
    have eq: "unique_acc seen (v # vs) = v # unique_acc (v # seen) vs"
      using False by simp
    have rest: "sorted_wrt (<) (map (first_index (v # vs)) (unique_acc (v # seen) vs))"
      by (rule tail) simp
    have pos: "\<forall>k\<in>set (unique_acc (v # seen) vs). 0 < first_index (v # vs) k"
      by (auto simp: set_unique_acc first_index_Cons)
    have zero: "first_index (v # vs) v = 0"
      by (simp add: first_index_Cons)
    show ?thesis
      unfolding eq list.map sorted_wrt.simps zero using rest pos by auto
  qed
qed

lemma set_categorical_order: "set (categorical_order vs) = set vs"
  by (simp add: categorical_order_def set_unique_acc)

lemma distinct_categorical_order: "distinct (categorical_order vs)"
  by (simp add: categorical_order_def distinct_unique_acc)

lemma sorted_categorical_order:
  "sorted_wrt (<) (map (first_index vs) (categorical_order vs))"
  by (simp add: categorical_order_def sorted_unique_acc)

lemma scatterplot_Inr:
  assumes "scatterplot laps palette = Inr sc"
  shows "sc = \<lparr>points = map (\<lambda>l. (l, lookup_single palette (Compound l))) laps,
              legend = map (\<lambda>k. (k, lookup_single palette k))
                           (filter label_shown (categorical_order (map Compound laps)))\<rparr>"
  using assms
  by (auto simp: scatterplot_def categorical_mapping_def Let_def split: if_splits)

lemma scatterplot_covered:
  assumes "\<forall>l\<in>set laps. palette (Compound l) \<noteq> None"
  shows "scatterplot laps palette =
          Inr \<lparr>points = map (\<lambda>l. (l, lookup_single palette (Compound l))) laps,
               legend = map (\<lambda>k. (k, lookup_single palette k))
                            (filter label_shown (categorical_order (map Compound laps)))\<rparr>"
proof -
  have "filter (\<lambda>k. palette k = None) (categorical_order (map Compound laps)) = []"
    using assms by (auto simp: filter_empty_conv set_categorical_order)
  then show ?thesis
    by (simp add: scatterplot_def categorical_mapping_def py_any_def)
qed

lemma series_of_scatter:
  "series_of \<lparr>points = map (\<lambda>l. (l, lookup_single palette (Compound l))) laps,
              legend = map (\<lambda>k. (k, lookup_single palette k)) levels\<rparr>
   = map (\<lambda>k. \<lparr>category = k, display_color = lookup_single palette k,
                 series_laps = filter (\<lambda>l. Compound l = k) laps\<rparr>) levels"
  by (simp add: series_of_def comp_def)

lemma COMPOUND_COLORS_shown: "COMPOUND_COLORS k \<noteq> None \<Longrightarrow> label_shown k"
  by (auto simp: COMPOUND_COLORS_def label_shown_def split: if_splits)

lemma mset_concat_filter:
  "distinct ks \<Longrightarrow>
   mset (concat (map (\<lambda>k. filter (\<lambda>x. f x = k) xs) ks)) = mset (filter (\<lambda>x. f x \<in> set ks) xs)"
proof (induction ks)
  case Nil
  show ?case by simp
next
  case (Cons k ks)
  have "mset (filter (\<lambda>x. f x = k) xs) + mset (filter (\<lambda>x. f x \<in> set ks) xs)
      = mset (filter (\<lambda>x. f x = k \<or> f x \<in> set ks) xs)"
    using Cons.prems by (induction xs) auto
  with Cons show ?case by simp
qed

lemma create_scatterplot_sample: "create_scatterplot sample_laps = Inr sample_scatter"
  by (simp add: create_scatterplot_def scatterplot_def categorical_mapping_def
      categorical_order_def py_any_def lookup_single_def COMPOUND_COLORS_def
      sample_laps_def sample_scatter_def label_shown_def)

text \<open>
  Claim C6 says that every lap whose category is missing from the colour dictionary makes
  the call fail with \<open>UnknownCategoryError\<close>, with no default colour. The script has no
  such error type: the failure is the \<open>ValueError\<close> of the palette check. That check
  tests \<open>any(missing)\<close>, so a missing category that is the empty string passes it; the
  call returns, and the lap is plotted in the colour \<open>(0, 0, 0, 0)\<close> that the lookup
  returns for a key it does not find. The legend shows the named category only.
\<close>

theorem unnamed_compound_is_drawn_transparent:
  "COMPOUND_COLORS '''' = None \<and>
   create_scatterplot unnamed_compound_laps =
     Inr \<lparr>points =
            [(\<lparr>LapNumber = 1, LapTime = 901 / 10, Compound = ''SOFT''\<rparr>, Hex ''#D32F2F''),
             (\<lparr>LapNumber = 2, LapTime = 449 / 5, Compound = ''''\<rparr>, RGBA 0 0 0 0)],
          legend = [(''SOFT'', Hex ''#D32F2F'')]\<rparr>"
  by (simp add: create_scatterplot_def scatterplot_def categorical_mapping_def
      categorical_order_def py_any_def lookup_single_def COMPOUND_COLORS_def
      unnamed_compound_laps_def label_shown_def)

text \<open>
  Claim C6, amended. For every lap sequence containing a lap whose category is a
  non-empty name absent from the colour dictionary, the plot call fails with
  \<open>ValueError\<close> when the palette is checked, before anything is drawn: there is no
  plot, no partial output, and no colour is substituted for the unknown category.
\<close>

theorem missing_named_category_fails:
  assumes "l \<in> set laps" and "Compound l \<noteq> []" and "palette (Compound l) = None"
  shows "scatterplot laps palette = Inl ValueError"
proof -
  have "Compound l \<in> set (filter (\<lambda>k. palette k = None) (categorical_order (map Compound laps)))"
    using assms(1,3) by (simp add: set_categorical_order)
  then have "py_any (filter (\<lambda>k. palette k = None) (categorical_order (map Compound laps)))"
    unfolding py_any_def list_ex_iff using assms(2) by blast
  then show ?thesis
    by (simp add: scatterplot_def categorical_mapping_def)
qed

theorem missing_named_category_fails_witness:
  "\<lparr>LapNumber = 2, LapTime = 449 / 5, Compound = ''SUPERSOFT''\<rparr> \<in> set supersoft_laps \<and>
   ''SUPERSOFT'' \<noteq> [] \<and>
   COMPOUND_COLORS ''SUPERSOFT'' = None \<and>
   create_scatterplot supersoft_laps = Inl ValueError"
proof -
  let ?l = "\<lparr>LapNumber = 2, LapTime = 449 / 5, Compound = ''SUPERSOFT''\<rparr>"
  have h1: "?l \<in> set supersoft_laps" by (simp add: supersoft_laps_def)
  have h2: "Compound ?l \<noteq> []" by simp
  have h3: "COMPOUND_COLORS (Compound ?l) = None" by (simp add: COMPOUND_COLORS_def)
  have "create_scatterplot supersoft_laps = Inl ValueError"
    unfolding create_scatterplot_def by (rule missing_named_category_fails [where palette = COMPOUND_COLORS, OF h1 h2 h3])
  with h1 h2 h3 show ?thesis by simp
qed

text \<open>
  Claim C7. For every lap sequence that the plot accepts, the laps are plotted in input
  order, and the series (one per legend entry) are in the order in which their categories
  first appear in the input: each category that the legend shows occurs once, and a
  category stands before another exactly when its first lap comes first. Each series
  holds the laps of its category in input order. For the laps
  \<open>(1, 90.1, SOFT), (2, 89.8, SOFT), (3, 91.0, MEDIUM)\<close> the series are \<open>SOFT\<close> with
  laps 1 and 2, then \<open>MEDIUM\<close> with lap 3, which is not the alphabetical order.
\<close>

theorem series_in_order_of_first_appearance:
  assumes "scatterplot laps palette = Inr sc"
  shows "map fst (points sc) = laps \<and>
         distinct (map category (series_of sc)) \<and>
         set (map category (series_of sc)) = {k \<in> Compound ` set laps. label_shown k} \<and>
         sorted_wrt (<) (map (first_index (map Compound laps)) (map category (series_of sc))) \<and>
         (\<forall>s\<in>set (series_of sc).
            series_laps s = filter (\<lambda>l. Compound l = category s) laps)"
proof -
  let ?levels = "categorical_order (map Compound laps)"
  have pts: "map fst (points sc) = laps"
    unfolding scatterplot_Inr [OF assms] by (simp add: comp_def)
  have cats: "map category (series_of sc) = filter label_shown ?levels"
    unfolding scatterplot_Inr [OF assms] series_of_scatter by (simp add: comp_def)
  have laps: "\<forall>s\<in>set (series_of sc).
            series_laps s = filter (\<lambda>l. Compound l = category s) laps"
    unfolding scatterplot_Inr [OF assms] series_of_scatter by auto
  have dist: "distinct (filter label_shown ?levels)"
    by (rule distinct_filter) (rule distinct_categorical_order)
  have elems: "set (filter label_shown ?levels) = {k \<in> Compound ` set laps. label_shown k}"
    by (auto simp: set_categorical_order)
  have "sorted_wrt (\<lambda>a b. first_index (map Compound laps) a < first_index (map Compound laps) b)
          ?levels"
    using sorted_categorical_order [of "map Compound laps"] by (simp only: sorted_wrt_map)
  then have "sorted_wrt (\<lambda>a b. first_index (map Compound laps) a < first_index (map Compound laps) b)
          (filter label_shown ?levels)"
    by (rule sorted_wrt_filter)
  then have ord: "sorted_wrt (<) (map (first_index (map Compound laps)) (filter label_shown ?levels))"
    by (simp only: sorted_wrt_map)
  show ?thesis
    unfolding cats using pts laps dist elems ord by simp
qed

theorem series_in_order_of_first_appearance_witness:
  "create_scatterplot sample_laps = Inr sample_scatter \<and>
   map fst (points sample_scatter) = sample_laps \<and>
   map category (series_of sample_scatter) = [''SOFT'', ''MEDIUM''] \<and>
   map (\<lambda>s. map LapNumber (series_laps s)) (series_of sample_scatter) = [[1, 2], [3]] \<and>
   distinct (map category (series_of sample_scatter)) \<and>
   sorted_wrt (<) (map (first_index (map Compound sample_laps))
                       (map category (series_of sample_scatter)))"
proof -
  have h: "scatterplot sample_laps COMPOUND_COLORS = Inr sample_scatter"
    using create_scatterplot_sample by (simp add: create_scatterplot_def)
  have a: "map category (series_of sample_scatter) = [''SOFT'', ''MEDIUM'']"
    by (simp add: series_of_def sample_scatter_def)
  have b: "map (\<lambda>s. map LapNumber (series_laps s)) (series_of sample_scatter) = [[1, 2], [3]]"
    by (simp add: series_of_def sample_scatter_def)
  from series_in_order_of_first_appearance [OF h] create_scatterplot_sample a b
  show ?thesis by blast
qed

text \<open>
  Claim C9. For every lap sequence whose categories are all keys of the colour
  dictionary, the plot is returned, and the laps of all series together are the input
  laps as a multiset, and so are their lap numbers: every lap is in exactly one series
  (the categories of the series are distinct, and a series holds laps of its own category
  only), none is dropped or duplicated, and no series is empty. The colour dictionary is
  one whose keys the legend shows, as all five keys of \<open>COMPOUND_COLORS\<close> are.
\<close>

theorem every_lap_in_exactly_one_series:
  assumes "\<forall>l\<in>set laps. palette (Compound l) \<noteq> None"
    and "\<forall>k. palette k \<noteq> None \<longrightarrow> label_shown k"
  shows "\<exists>sc. scatterplot laps palette = Inr sc \<and>
           mset (concat (map series_laps (series_of sc))) = mset laps \<and>
           mset (concat (map (\<lambda>s. map LapNumber (series_laps s)) (series_of sc)))
             = mset (map LapNumber laps) \<and>
           distinct (map category (series_of sc)) \<and>
           (\<forall>s\<in>set (series_of sc).
              series_laps s \<noteq> [] \<and> (\<forall>l\<in>set (series_laps s). Compound l = category s))"
proof -
  let ?levels = "categorical_order (map Compound laps)"
  let ?ss = "map (\<lambda>k. \<lparr>category = k, display_color = lookup_single palette k,
                 series_laps = filter (\<lambda>l. Compound l = k) laps\<rparr>) ?levels"
  have shown: "filter label_shown ?levels = ?levels"
    using assms by (auto simp: set_categorical_order)
  have sc: "scatterplot laps palette =
          Inr \<lparr>points = map (\<lambda>l. (l, lookup_single palette (Compound l))) laps,
               legend = map (\<lambda>k. (k, lookup_single palette k)) ?levels\<rparr>"
    using scatterplot_covered [OF assms(1)] by (simp only: shown)
  have all: "mset (concat (map series_laps ?ss)) = mset laps"
  proof -
    have "map series_laps ?ss = map (\<lambda>k. filter (\<lambda>l. Compound l = k) laps) ?levels"
      by (simp add: comp_def)
    then have "mset (concat (map series_laps ?ss))
        = mset (filter (\<lambda>l. Compound l \<in> set ?levels) laps)"
      by (simp only: mset_concat_filter [OF distinct_categorical_order])
    also have "filter (\<lambda>l. Compound l \<in> set ?levels) laps = laps"
      by (simp add: set_categorical_order)
    finally show ?thesis .
  qed
  have nums: "mset (concat (map (\<lambda>s. map LapNumber (series_laps s)) ?ss))
             = mset (map LapNumber laps)"
  proof -
    have "concat (map (\<lambda>s. map LapNumber (series_laps s)) ?ss)
        = map LapNumber (concat (map series_laps ?ss))"
      by (simp add: map_concat comp_def)
    then show ?thesis
      by (simp only: mset_map all)
  qed
  have cats: "distinct (map category ?ss)"
    by (simp add: comp_def distinct_categorical_order)
  have nonempty: "\<forall>s\<in>set ?ss.
              series_laps s \<noteq> [] \<and> (\<forall>l\<in>set (series_laps s). Compound l = category s)"
    by (auto simp: set_categorical_order filter_empty_conv)
  show ?thesis
    unfolding sc using all nums cats nonempty
    by (simp only: sum.inject series_of_scatter ex_simps simp_thms)
qed

theorem every_lap_in_exactly_one_series_witness:
  "\<exists>sc. scatterplot sample_laps COMPOUND_COLORS = Inr sc \<and>
      mset (concat (map series_laps (series_of sc))) = mset sample_laps \<and>
      mset (concat (map (\<lambda>s. map LapNumber (series_laps s)) (series_of sc)))
        = mset (map LapNumber sample_laps) \<and>
      distinct (map category (series_of sc)) \<and>
      (\<forall>s\<in>set (series_of sc).
         series_laps s \<noteq> [] \<and> (\<forall>l\<in>set (series_laps s). Compound l = category s))"
proof -
  have h1: "\<forall>l\<in>set sample_laps. COMPOUND_COLORS (Compound l) \<noteq> None"
    by (simp add: sample_laps_def COMPOUND_COLORS_def)
  have h2: "\<forall>k. COMPOUND_COLORS k \<noteq> None \<longrightarrow> label_shown k"
    using COMPOUND_COLORS_shown by blast
  show ?thesis
    by (rule every_lap_in_exactly_one_series [where palette = COMPOUND_COLORS, OF h1 h2])
qed

section \<open>Claims about the returned string\<close>

lemma length_b64_alphabet: "length b64_alphabet = 64"
  by (simp add: b64_alphabet_def)

lemma is_b64_char_b64_char: "is_b64_char (b64_char i)"
  unfolding is_b64_char_def b64_char_def
  by (rule nth_mem) (simp add: length_b64_alphabet)

lemma pad_not_b64_char: "\<not> is_b64_char (CHR ''='')"
  by (simp add: is_b64_char_def b64_alphabet_def)

lemma b64_char_not_pad: "b64_char i \<noteq> CHR ''=''"
  using is_b64_char_b64_char [of i] pad_not_b64_char by auto

lemma valid_base64_group:
  "valid_base64 (b64_char i # b64_char j # b64_char k # b64_char l # rest) = valid_base64 rest"
  by (cases rest) (simp_all add: is_b64_char_b64_char b64_char_not_pad)

lemma valid_base64_b64encode: "valid_base64 (b64encode buf)"
proof (induction buf rule: b64encode.induct)
  case 1
  show ?case by simp
next
  case (2 a)
  show ?case by (simp add: Let_def is_b64_char_b64_char b64_char_not_pad)
next
  case (3 a b)
  show ?case by (simp add: Let_def is_b64_char_b64_char b64_char_not_pad)
next
  case (4 a b c rest)
  then show ?case by (simp add: Let_def valid_base64_group)
qed

lemma data_uri_prefix:
  "take 22 (data_uri buf) = ''data:image/png;base64,'' \<and>
   drop 22 (data_uri buf) = b64encode buf"
  by (simp add: data_uri_def)

text \<open>
  Claim C10. Whatever bytes the renderer wrote into the buffer, each of the three
  figure-producing functions (gear figure, lap-time scatterplot, speed graph) returns a
  string that begins with \<open>data:image/png;base64,\<close> and continues with valid base64
  text.
\<close>

theorem figures_return_png_data_uri:
  "take 22 (create_figure_return buf) = ''data:image/png;base64,'' \<and>
   valid_base64 (drop 22 (create_figure_return buf)) \<and>
   take 22 (create_scatterplot_return buf) = ''data:image/png;base64,'' \<and>
   valid_base64 (drop 22 (create_scatterplot_return buf)) \<and>
   take 22 (create_speed_graph_return buf) = ''data:image/png;base64,'' \<and>
   valid_base64 (drop 22 (create_speed_graph_return buf))"
  unfolding create_figure_return_def create_scatterplot_return_def
    create_speed_graph_return_def
  by (simp only: data_uri_prefix valid_base64_b64encode simp_thms)

theorem figures_return_png_data_uri_witness:
  "create_figure_return [137, 80, 78, 71] = ''data:image/png;base64,iVBORw=='' \<and>
   take 22 (create_figure_return [137, 80, 78, 71]) = ''data:image/png;base64,'' \<and>
   valid_base64 (drop 22 (create_figure_return [137, 80, 78, 71])) \<and>
   valid_base64 (drop 22 (create_scatterplot_return [137, 80, 78, 71])) \<and>
   valid_base64 (drop 22 (create_speed_graph_return [137, 80, 78, 71]))"
proof -
  have "create_figure_return [137, 80, 78, 71] = ''data:image/png;base64,iVBORw==''"
    by (simp add: create_figure_return_def data_uri_def b64_char_def b64_alphabet_def)
  with figures_return_png_data_uri [of "[137, 80, 78, 71]"] show ?thesis
    by blast
qed

end
